theory Spec2Isabelle
  imports Main "HOL-Library.Word"
begin

section \<open>The invoices router of the invoices service\<close>

text \<open>
  A shallow embedding of \<^verbatim>\<open>invoices-router.ts\<close>: the six route handlers of
  \<^verbatim>\<open>InvoicesRouter.router\<close>. A handler is a function from the request and the state
  of the world behind the invoices service to three things: what comes of the request
  (the response, or the error given to \<^verbatim>\<open>next\<close>), the calls it made on the
  invoices service, in order, each with the error the call raised if it raised one, and
  the state of the world afterwards.
\<close>

subsection \<open>Errors\<close>

text \<open>
  The values a handler passes to \<^verbatim>\<open>next(err)\<close>, by their JavaScript class, with the
  message. \<open>CelebrateError\<close> is what the \<^verbatim>\<open>celebrate\<close> middleware passes on when a
  segment of the request fails its schema; \<open>OtherError\<close> stands for any other class
  a collaborator may throw (the class name and the message).
\<close>

datatype segment = PARAMS | QUERY | BODY

datatype js_error =
    Error string
  | RangeError string
  | NotFoundError string
  | CelebrateError segment
  | OtherError string string

datatype error_kind = InvalidRequest | NotFound | InvalidState | Unhandled

text \<open>
  Modelled from the spec: the generic top-level error handler is not in the source
  files. The spec's error taxonomy names four kinds: validation failures (file count,
  orderBy syntax, enum values) are \<open>InvalidRequest\<close>, a missing resource is
  \<open>NotFound\<close>, an internal inconsistency such as an unmappable MIME type is
  \<open>InvalidState\<close>, everything else is \<open>Unhandled\<close>. The router raises the first as
  \<^verbatim>\<open>RangeError\<close> (and celebrate as its own error), the second as
  \<^verbatim>\<open>NotFoundError\<close> and the third as a plain \<^verbatim>\<open>Error\<close>; the kind
  is read off the class of the error.
\<close>

fun kind_of_error :: "js_error \<Rightarrow> error_kind" where
  "kind_of_error (RangeError m) = InvalidRequest"
| "kind_of_error (CelebrateError s) = InvalidRequest"
| "kind_of_error (NotFoundError m) = NotFound"
| "kind_of_error (Error m) = InvalidState"
| "kind_of_error (OtherError c m) = Unhandled"

subsection \<open>Requests\<close>

type_synonym buffer = "8 word list"

text \<open>
  \<^verbatim>\<open>UploadedFile\<close> of express-fileupload, with the two fields the router reads.
  \<^verbatim>\<open>req.files\<close> is absent, or an object from form field names to
  \<^verbatim>\<open>UploadedFile | UploadedFile[]\<close>: files uploaded under one field name
  arrive as an array under that name. The object is an association list in the order of
  its keys.
\<close>

record uploaded_file =
  data :: buffer
  mimetype :: string

datatype file_entry = Single uploaded_file | Multiple "uploaded_file list"

type_synonym file_array = "(string \<times> file_entry) list"

text \<open>
  Reading \<^verbatim>\<open>.data\<close> and \<^verbatim>\<open>.mimetype\<close> off the value that the router casts to
  \<^verbatim>\<open>UploadedFile\<close>: an array has neither property, and the read gives
  \<^verbatim>\<open>undefined\<close> (\<open>None\<close>).
\<close>

fun entry_data :: "file_entry \<Rightarrow> buffer option" where
  "entry_data (Single f) = Some (data f)"
| "entry_data (Multiple fs) = None"

fun entry_mimetype :: "file_entry \<Rightarrow> string option" where
  "entry_mimetype (Single f) = Some (mimetype f)"
| "entry_mimetype (Multiple fs) = None"

text \<open>The files a payload holds, over all its field names.\<close>

fun entry_files :: "file_entry \<Rightarrow> uploaded_file list" where
  "entry_files (Single f) = [f]"
| "entry_files (Multiple fs) = fs"

definition payload_files :: "file_array option \<Rightarrow> uploaded_file list" where
  "payload_files files =
     (case files of None \<Rightarrow> [] | Some fs \<Rightarrow> concat (map (entry_files \<circ> snd) fs))"

text \<open>The query of \<^verbatim>\<open>GET /\<close> and the body of \<^verbatim>\<open>PATCH /:invoiceId\<close>, as parsed.\<close>

record list_query =
  q_ids :: "string list option"
  q_statuses :: "string list option"
  q_vendorIds :: "string list option"
  q_orderBy :: "string list option"

record patch_body =
  b_status :: "string option"

subsection \<open>The invoices service\<close>

record document =
  content :: "buffer option"
  mimeType :: "string option"

record order_by =
  field :: string
  direction :: string

record list_invoices_options =
  ids :: "string list option"
  statuses :: "string list option"
  vendorIds :: "string list option"
  orderBy :: "order_by list"

record invoice_document_file =
  file_content :: buffer
  file_mimeType :: string

text \<open>
  The collaborator, \<^verbatim>\<open>this.options.invoices.service\<close>: each method takes the state of
  the world \<open>'w\<close> and returns what it resolved to, or the error it threw, with the new
  state. \<^verbatim>\<open>getInvoiceById\<close> and \<^verbatim>\<open>downloadInvoiceDocumentFile\<close> may resolve to
  nothing.
\<close>

record ('w, 'inv, 'cur) invoices_service =
  createInvoice :: "document \<Rightarrow> 'w \<Rightarrow> (js_error + 'inv) \<times> 'w"
  listInvoices :: "list_invoices_options \<Rightarrow> 'w \<Rightarrow> (js_error + 'inv list) \<times> 'w"
  listCurrencies :: "'w \<Rightarrow> (js_error + 'cur list) \<times> 'w"
  getInvoiceById :: "string \<Rightarrow> 'w \<Rightarrow> (js_error + 'inv option) \<times> 'w"
  downloadInvoiceDocumentFile ::
    "string \<Rightarrow> 'w \<Rightarrow> (js_error + invoice_document_file option) \<times> 'w"
  updateInvoice :: "string \<Rightarrow> string option \<Rightarrow> 'w \<Rightarrow> (js_error + 'inv) \<times> 'w"

record ('w, 'inv, 'cur, 'vc) invoices_router_options =
  vendors_client :: 'vc
  invoices_service :: "('w, 'inv, 'cur) invoices_service"

text \<open>
  What the router uses and the source files do not hold: the \<^verbatim>\<open>uuid\<close> rule of Joi,
  the values of the \<^verbatim>\<open>InvoiceStatus\<close> enum, \<^verbatim>\<open>mimeTypes.extension\<close>
  (\<open>None\<close> is its \<^verbatim>\<open>false\<close>), and the charset that \<^verbatim>\<open>res.set\<close> of express
  adds to a \<^verbatim>\<open>Content-Type\<close>: \<open>charset v\<close> is the charset, in lower case, that
  express has for the value \<open>v\<close>, and \<open>None\<close> when \<open>v\<close> names a charset already or
  express has none for its media type. They are parameters of the model.
\<close>

record externals =
  uuid :: "string \<Rightarrow> bool"
  invoiceStatusValues :: "string list"
  extension :: "string \<Rightarrow> string option"
  charset :: "string \<Rightarrow> string option"

datatype service_call =
    CreateInvoice document
  | ListInvoices list_invoices_options
  | ListCurrencies
  | GetInvoiceById string
  | DownloadInvoiceDocumentFile string
  | UpdateInvoice string "string option"

type_synonym trace = "(service_call \<times> js_error option) list"

fun raised :: "js_error + 'a \<Rightarrow> js_error option" where
  "raised (Inl e) = Some e"
| "raised (Inr v) = None"

subsection \<open>Responses\<close>

datatype header_value = HString string | HNumber nat

datatype ('inv, 'cur) body =
    Json_invoice 'inv
  | Json_invoices "'inv list"
  | Json_currencies "'cur list"
  | Send buffer

record ('inv, 'cur) response =
  statusCode :: nat
  headers :: "(string \<times> header_value) list"
  body :: "('inv, 'cur) body"

type_synonym ('w, 'inv, 'cur) outcome =
  "(js_error + ('inv, 'cur) response) \<times> trace \<times> 'w"

definition CREATED :: nat where
  "CREATED = 201"

text \<open>
  A response is the status, the headers that the handler sets, with the values that the
  response carries for them, and the body. A numeric value is kept as the number that
  express writes in decimal. The headers that express adds by itself, and what it does
  with a conditional or a \<^verbatim>\<open>HEAD\<close> request, are outside the model: a request
  carries no header here.

  \<^verbatim>\<open>res.set(field, value)\<close> of express stores the value as it is given, but for
  \<^verbatim>\<open>Content-Type\<close>: to a value that names no charset it appends
  \<^verbatim>\<open>; charset=\<close> and the charset it has for the media type, when it has one. The
  handler writes the name of that header as \<^verbatim>\<open>Content-Type\<close>.
\<close>

definition res_set_value :: "externals \<Rightarrow> string \<Rightarrow> header_value \<Rightarrow> header_value" where
  "res_set_value ext fld v =
     (if fld = ''Content-Type'' then
        (case v of
           HString s \<Rightarrow>
             (case charset ext s of
                None \<Rightarrow> HString s
              | Some cs \<Rightarrow> HString (s @ ''; charset='' @ cs))
         | HNumber n \<Rightarrow> HNumber n)
      else v)"

definition res_set ::
  "externals \<Rightarrow> (string \<times> header_value) list \<Rightarrow> (string \<times> header_value) list" where
  "res_set ext hs = map (\<lambda>(fld, v). (fld, res_set_value ext fld v)) hs"

text \<open>\<^verbatim>\<open>res.json(v)\<close> on a fresh response: status 200, no header set by the handler.\<close>

definition res_json :: "('inv, 'cur) body \<Rightarrow> ('inv, 'cur) response" where
  "res_json b = \<lparr>statusCode = 200, headers = [], body = b\<rparr>"

subsection \<open>POST /\<close>

text \<open>
  The handler looks at \<^verbatim>\<open>Object.keys(req.files)\<close>, takes the value under the one
  key and casts it to \<^verbatim>\<open>UploadedFile\<close>. Reading a property of a value that is not
  there is a \<^verbatim>\<open>TypeError\<close>; the key comes from the object itself, so that branch
  is never taken.
\<close>

definition post_root ::
  "('w, 'inv, 'cur, 'vc) invoices_router_options \<Rightarrow> file_array option \<Rightarrow> 'w
    \<Rightarrow> ('w, 'inv, 'cur) outcome" where
  "post_root options files w =
     (case files of
        None \<Rightarrow> (Inl (RangeError ''No files were uploaded''), [], w)
      | Some fs \<Rightarrow>
          (let fileKeys = map fst fs in
           if length fileKeys = 0 then (Inl (RangeError ''No files were uploaded''), [], w)
           else if length fileKeys \<noteq> 1 then (Inl (RangeError ''Must upload a single file''), [], w)
           else
             (case map_of fs (hd fileKeys) of
                None \<Rightarrow> (Inl (OtherError ''TypeError'' ''''), [], w)
              | Some invoiceFile \<Rightarrow>
                  (let doc = \<lparr>content = entry_data invoiceFile,
                              mimeType = entry_mimetype invoiceFile\<rparr>;
                       (r, w') = createInvoice (invoices_service options) doc w
                   in ((case r of
                          Inl err \<Rightarrow> Inl err
                        | Inr invoice \<Rightarrow>
                            Inr ((res_json (Json_invoice invoice))\<lparr>statusCode := CREATED\<rparr>)),
                       [(CreateInvoice doc, raised r)], w')))))"

subsection \<open>The celebrate middleware\<close>

text \<open>
  \<^verbatim>\<open>celebrate({[segment]: schema})\<close> in front of a handler: a request whose segment
  fails the schema goes to \<^verbatim>\<open>next\<close> with celebrate's error and never reaches the
  handler.
\<close>

definition celebrate ::
  "segment \<Rightarrow> bool \<Rightarrow> ('w \<Rightarrow> ('w, 'inv, 'cur) outcome) \<Rightarrow> 'w \<Rightarrow> ('w, 'inv, 'cur) outcome" where
  "celebrate seg valid handler w =
     (if valid then handler w else (Inl (CelebrateError seg), [], w))"

text \<open>
  The schemas. \<^verbatim>\<open>Joi.string()\<close> refuses the empty string;
  \<^verbatim>\<open>Joi.array().items(r)\<close> asks \<open>r\<close> of every item; a key that is not
  \<^verbatim>\<open>required()\<close> may be absent.
\<close>

definition joi_string :: "string \<Rightarrow> bool" where
  "joi_string s = (s \<noteq> [])"

definition joi_optional :: "('a \<Rightarrow> bool) \<Rightarrow> 'a option \<Rightarrow> bool" where
  "joi_optional rule v = (case v of None \<Rightarrow> True | Some x \<Rightarrow> rule x)"

definition joi_string_uuid :: "externals \<Rightarrow> string \<Rightarrow> bool" where
  "joi_string_uuid ext s = (joi_string s \<and> uuid ext s)"

definition joi_string_valid :: "string list \<Rightarrow> string \<Rightarrow> bool" where
  "joi_string_valid allowed s = (s \<in> set allowed)"

definition list_query_schema :: "externals \<Rightarrow> list_query \<Rightarrow> bool" where
  "list_query_schema ext q =
     (joi_optional (list_all (joi_string_uuid ext)) (q_ids q) \<and>
      joi_optional (list_all (joi_string_valid (invoiceStatusValues ext))) (q_statuses q) \<and>
      joi_optional (list_all (joi_string_uuid ext)) (q_vendorIds q) \<and>
      joi_optional (list_all joi_string) (q_orderBy q))"

definition invoiceId_params_schema :: "externals \<Rightarrow> string \<Rightarrow> bool" where
  "invoiceId_params_schema ext invoiceId = joi_string_uuid ext invoiceId"

definition patch_body_schema :: "externals \<Rightarrow> patch_body \<Rightarrow> bool" where
  "patch_body_schema ext b =
     joi_optional (joi_string_valid (invoiceStatusValues ext)) (b_status b)"

subsection \<open>GET /\<close>

text \<open>
  \<^verbatim>\<open>s.split(' ')\<close>: the pieces of \<open>s\<close> between the separators, one more than
  there are separators, so never an empty array.
\<close>

fun split :: "char \<Rightarrow> string \<Rightarrow> string list" where
  "split sep [] = [[]]"
| "split sep (c # cs) =
     (if c = sep then [] # split sep cs
      else (case split sep cs of
              [] \<Rightarrow> [[c]]
            | p # ps \<Rightarrow> (c # p) # ps))"

text \<open>An element of an array by index; \<open>None\<close> is \<^verbatim>\<open>undefined\<close>.\<close>

definition at_index :: "'a list \<Rightarrow> nat \<Rightarrow> 'a option" where
  "at_index xs i = (if i < length xs then Some (xs ! i) else None)"

text \<open>The callback that the handler maps over the clauses of \<^verbatim>\<open>orderBy\<close>.\<close>

definition orderBy_callback :: "string \<Rightarrow> js_error + order_by" where
  "orderBy_callback orderByClause =
     (let parts = split (CHR '' '') orderByClause;
          fld = at_index parts 0;
          dir = at_index parts 1
      in if fld \<noteq> Some ''dueDate'' then Inl (Error [])
         else if dir \<noteq> Some ''asc'' \<and> dir \<noteq> Some ''desc'' then
           Inl (RangeError (''Invalid direction in orderBy clause '' @ orderByClause))
         else Inr \<lparr>field = the fld, direction = the dir\<rparr>)"

text \<open>\<^verbatim>\<open>Array.prototype.map\<close> with a callback that may throw: the first throw ends it.\<close>

fun array_map :: "('a \<Rightarrow> js_error + 'b) \<Rightarrow> 'a list \<Rightarrow> js_error + 'b list" where
  "array_map f [] = Inr []"
| "array_map f (x # xs) =
     (case f x of
        Inl err \<Rightarrow> Inl err
      | Inr y \<Rightarrow> (case array_map f xs of Inl err \<Rightarrow> Inl err | Inr ys \<Rightarrow> Inr (y # ys)))"

definition get_root ::
  "('w, 'inv, 'cur, 'vc) invoices_router_options \<Rightarrow> list_query \<Rightarrow> 'w
    \<Rightarrow> ('w, 'inv, 'cur) outcome" where
  "get_root options q w =
     (case (case q_orderBy q of
              None \<Rightarrow> Inr []
            | Some orderByQueryParam \<Rightarrow> array_map orderBy_callback orderByQueryParam) of
        Inl err \<Rightarrow> (Inl err, [], w)
      | Inr ob \<Rightarrow>
          (let args = \<lparr>ids = q_ids q, statuses = q_statuses q,
                       vendorIds = q_vendorIds q, orderBy = ob\<rparr>;
               (r, w') = listInvoices (invoices_service options) args w
           in ((case r of
                  Inl err \<Rightarrow> Inl err
                | Inr vendors \<Rightarrow> Inr (res_json (Json_invoices vendors))),
               [(ListInvoices args, raised r)], w')))"

definition get_root_route ::
  "externals \<Rightarrow> ('w, 'inv, 'cur, 'vc) invoices_router_options \<Rightarrow> list_query \<Rightarrow> 'w
    \<Rightarrow> ('w, 'inv, 'cur) outcome" where
  "get_root_route ext options q =
     celebrate QUERY (list_query_schema ext q) (get_root options q)"

subsection \<open>GET /currencies\<close>

definition get_currencies ::
  "('w, 'inv, 'cur, 'vc) invoices_router_options \<Rightarrow> 'w \<Rightarrow> ('w, 'inv, 'cur) outcome" where
  "get_currencies options w =
     (let (r, w') = listCurrencies (invoices_service options) w
      in ((case r of
             Inl err \<Rightarrow> Inl err
           | Inr currencies \<Rightarrow> Inr (res_json (Json_currencies currencies))),
          [(ListCurrencies, raised r)], w'))"

subsection \<open>GET /:invoiceId\<close>

definition get_invoiceId ::
  "('w, 'inv, 'cur, 'vc) invoices_router_options \<Rightarrow> string \<Rightarrow> 'w
    \<Rightarrow> ('w, 'inv, 'cur) outcome" where
  "get_invoiceId options invoiceId w =
     (let (r, w') = getInvoiceById (invoices_service options) invoiceId w
      in ((case r of
             Inl err \<Rightarrow> Inl err
           | Inr None \<Rightarrow> Inl (NotFoundError (''Invoice '' @ invoiceId @ '' not found''))
           | Inr (Some invoice) \<Rightarrow> Inr (res_json (Json_invoice invoice))),
          [(GetInvoiceById invoiceId, raised r)], w'))"

definition get_invoiceId_route ::
  "externals \<Rightarrow> ('w, 'inv, 'cur, 'vc) invoices_router_options \<Rightarrow> string \<Rightarrow> 'w
    \<Rightarrow> ('w, 'inv, 'cur) outcome" where
  "get_invoiceId_route ext options invoiceId =
     celebrate PARAMS (invoiceId_params_schema ext invoiceId) (get_invoiceId options invoiceId)"

subsection \<open>GET /:invoiceId/download\<close>

text \<open>
  \<^verbatim>\<open>!fileExtension\<close> holds of \<^verbatim>\<open>false\<close> and of the empty string.
\<close>

text \<open>
  Modelled from the spec: the table of the mime-types package is not in the source
  files. The spec names one entry of it: a document of MIME type
  \<^verbatim>\<open>application/pdf\<close> is downloaded under a name that ends in \<^verbatim>\<open>.pdf\<close>.
\<close>

definition pdf_extension :: "externals \<Rightarrow> bool" where
  "pdf_extension ext = (extension ext ''application/pdf'' = Some ''pdf'')"

definition falsy_extension :: "string option \<Rightarrow> bool" where
  "falsy_extension e = (case e of None \<Rightarrow> True | Some s \<Rightarrow> s = [])"

definition content_disposition :: "string \<Rightarrow> string \<Rightarrow> string" where
  "content_disposition invoiceId fileExtension =
     ''attachment; filename='' @ [CHR 0x22] @ invoiceId @ ''.'' @ fileExtension @ [CHR 0x22]"

definition get_invoiceId_download ::
  "externals \<Rightarrow> ('w, 'inv, 'cur, 'vc) invoices_router_options \<Rightarrow> string \<Rightarrow> 'w
    \<Rightarrow> ('w, 'inv, 'cur) outcome" where
  "get_invoiceId_download ext options invoiceId w =
     (let (r, w') = downloadInvoiceDocumentFile (invoices_service options) invoiceId w
      in ((case r of
             Inl err \<Rightarrow> Inl err
           | Inr None \<Rightarrow> Inl (NotFoundError (''Invoice '' @ invoiceId @ '' not found''))
           | Inr (Some invoiceDocumentFile) \<Rightarrow>
               (let fileExtension = extension ext (file_mimeType invoiceDocumentFile) in
                if falsy_extension fileExtension then
                  Inl (Error (''Invalid mimeType '' @ file_mimeType invoiceDocumentFile
                              @ '' for invoice '' @ invoiceId))
                else
                  Inr \<lparr>statusCode = 200,
                       headers =
                         res_set ext
                           [(''Content-Type'', HString (file_mimeType invoiceDocumentFile)),
                            (''Content-Length'',
                               HNumber (length (file_content invoiceDocumentFile))),
                            (''Content-Disposition'',
                               HString (content_disposition invoiceId (the fileExtension)))],
                       body = Send (file_content invoiceDocumentFile)\<rparr>)),
          [(DownloadInvoiceDocumentFile invoiceId, raised r)], w'))"

definition get_invoiceId_download_route ::
  "externals \<Rightarrow> ('w, 'inv, 'cur, 'vc) invoices_router_options \<Rightarrow> string \<Rightarrow> 'w
    \<Rightarrow> ('w, 'inv, 'cur) outcome" where
  "get_invoiceId_download_route ext options invoiceId =
     celebrate PARAMS (invoiceId_params_schema ext invoiceId)
       (get_invoiceId_download ext options invoiceId)"

subsection \<open>PATCH /:invoiceId\<close>

definition patch_invoiceId ::
  "('w, 'inv, 'cur, 'vc) invoices_router_options \<Rightarrow> string \<Rightarrow> patch_body \<Rightarrow> 'w
    \<Rightarrow> ('w, 'inv, 'cur) outcome" where
  "patch_invoiceId options invoiceId b w =
     (let status = b_status b;
          (r, w') = updateInvoice (invoices_service options) invoiceId status w
      in ((case r of
             Inl err \<Rightarrow> Inl err
           | Inr invoice \<Rightarrow> Inr (res_json (Json_invoice invoice))),
          [(UpdateInvoice invoiceId status, raised r)], w'))"

definition patch_invoiceId_route ::
  "externals \<Rightarrow> ('w, 'inv, 'cur, 'vc) invoices_router_options \<Rightarrow> string \<Rightarrow> patch_body \<Rightarrow> 'w
    \<Rightarrow> ('w, 'inv, 'cur) outcome" where
  "patch_invoiceId_route ext options invoiceId b =
     celebrate BODY (patch_body_schema ext b) (patch_invoiceId options invoiceId b)"

subsection \<open>The router\<close>

text \<open>
  The requests the router has a route for, with what each route reads of the request.
  \<^verbatim>\<open>/currencies\<close> is registered before \<^verbatim>\<open>/:invoiceId\<close> and so wins for that path.
\<close>

datatype request =
    POST_root "file_array option"
  | GET_root list_query
  | GET_currencies
  | GET_invoiceId string
  | GET_invoiceId_download string
  | PATCH_invoiceId string patch_body

fun router ::
  "externals \<Rightarrow> ('w, 'inv, 'cur, 'vc) invoices_router_options \<Rightarrow> request \<Rightarrow> 'w
    \<Rightarrow> ('w, 'inv, 'cur) outcome" where
  "router ext options (POST_root files) = post_root options files"
| "router ext options (GET_root q) = get_root_route ext options q"
| "router ext options GET_currencies = get_currencies options"
| "router ext options (GET_invoiceId invoiceId) = get_invoiceId_route ext options invoiceId"
| "router ext options (GET_invoiceId_download invoiceId) =
     get_invoiceId_download_route ext options invoiceId"
| "router ext options (PATCH_invoiceId invoiceId b) =
     patch_invoiceId_route ext options invoiceId b"

text \<open>What a call does on the service in a state: the error it raises, and the new state.\<close>

fun perform ::
  "('w, 'inv, 'cur) invoices_service \<Rightarrow> service_call \<Rightarrow> 'w \<Rightarrow> js_error option \<times> 'w" where
  "perform svc (CreateInvoice doc) w = map_prod raised id (createInvoice svc doc w)"
| "perform svc (ListInvoices args) w = map_prod raised id (listInvoices svc args w)"
| "perform svc ListCurrencies w = map_prod raised id (listCurrencies svc w)"
| "perform svc (GetInvoiceById i) w = map_prod raised id (getInvoiceById svc i w)"
| "perform svc (DownloadInvoiceDocumentFile i) w =
     map_prod raised id (downloadInvoiceDocumentFile svc i w)"
| "perform svc (UpdateInvoice i st) w = map_prod raised id (updateInvoice svc i st w)"

subsection \<open>Sample collaborators\<close>

text \<open>
  Concrete collaborators on which the theorems below are run. The world is the number of
  invoices stored, an invoice is its identifier, a currency its code. The identifier rule
  is the canonical form of a UUID: 36 characters, hyphens at positions 8, 13, 18 and 23,
  hexadecimal digits elsewhere. The extension table has two entries, and the charset of a
  \<^verbatim>\<open>text/\<close> type is \<^verbatim>\<open>utf-8\<close>.
\<close>

definition example_uuid :: "string \<Rightarrow> bool" where
  "example_uuid s =
     (length s = 36 \<and>
      list_all (\<lambda>(i, c). if i \<in> set [8, 13, 18, 23] then c = CHR ''-''
                          else c \<in> set ''0123456789abcdefABCDEF'')
        (zip [0 ..< 36] s))"

definition example_externals :: externals where
  "example_externals =
     \<lparr>uuid = example_uuid,
      invoiceStatusValues = [''created'', ''paid''],
      extension = (\<lambda>t. if t = ''application/pdf'' then Some ''pdf''
                       else if t = ''text/plain'' then Some ''txt'' else None),
      charset = (\<lambda>v. if take 5 v = ''text/'' then Some ''utf-8'' else None)\<rparr>"

definition example_service :: "(nat, string, string) invoices_service" where
  "example_service =
     \<lparr>createInvoice = (\<lambda>doc n. (Inr ''invoice-1'', Suc n)),
      listInvoices = (\<lambda>args n. (Inr (replicate n ''invoice-1''), n)),
      listCurrencies = (\<lambda>n. (Inr [''USD''], n)),
      getInvoiceById = (\<lambda>i n. (Inr (if n = 0 then None else Some ''invoice-1''), n)),
      downloadInvoiceDocumentFile =
        (\<lambda>i n. (Inr (if n = 0 then None
                       else Some \<lparr>file_content = [0x25, 0x50, 0x44, 0x46],
                                  file_mimeType = ''application/pdf''\<rparr>), n)),
      updateInvoice = (\<lambda>i st n. (Inr ''invoice-1'', n))\<rparr>"

definition example_options :: "(nat, string, string, unit) invoices_router_options" where
  "example_options = \<lparr>vendors_client = (), invoices_service = example_service\<rparr>"

text \<open>A service whose every method throws.\<close>

definition failing_service :: "js_error \<Rightarrow> (nat, string, string) invoices_service" where
  "failing_service e =
     \<lparr>createInvoice = (\<lambda>doc n. (Inl e, n)),
      listInvoices = (\<lambda>args n. (Inl e, n)),
      listCurrencies = (\<lambda>n. (Inl e, n)),
      getInvoiceById = (\<lambda>i n. (Inl e, n)),
      downloadInvoiceDocumentFile = (\<lambda>i n. (Inl e, n)),
      updateInvoice = (\<lambda>i st n. (Inl e, n))\<rparr>"

definition example_id :: string where
  "example_id = ''3f2b8c1e-5d4a-4e6f-9a7b-1c2d3e4f5a6b''"

text \<open>An invoices service that holds a document whose MIME type has no extension.\<close>

definition unmapped_options :: "(nat, string, string, unit) invoices_router_options" where
  "unmapped_options =
     \<lparr>vendors_client = (),
      invoices_service = example_service
        \<lparr>downloadInvoiceDocumentFile :=
           (\<lambda>i n. (Inr (Some \<lparr>file_content = [0x00, 0x01],
                                file_mimeType = ''application/x-unknown''\<rparr>), n))\<rparr>\<rparr>"

text \<open>An invoices service that holds a document of plain text.\<close>

definition text_options :: "(nat, string, string, unit) invoices_router_options" where
  "text_options =
     \<lparr>vendors_client = (),
      invoices_service = example_service
        \<lparr>downloadInvoiceDocumentFile :=
           (\<lambda>i n. (Inr (Some \<lparr>file_content = [0x68, 0x69],
                                file_mimeType = ''text/plain''\<rparr>), n))\<rparr>\<rparr>"

definition deadline_exceeded :: js_error where
  "deadline_exceeded = OtherError ''AbortError'' ''deadline exceeded''"

definition failing_options :: "(nat, string, string, unit) invoices_router_options" where
  "failing_options =
     \<lparr>vendors_client = (), invoices_service = failing_service deadline_exceeded\<rparr>"

section \<open>Properties of the routes\<close>

subsection \<open>The middleware and the sample identifier\<close>

lemma celebrate_valid: "valid \<Longrightarrow> celebrate seg valid handler w = handler w"
  by (simp add: celebrate_def)

lemma celebrate_invalid:
  "\<not> valid \<Longrightarrow> celebrate seg valid handler w = (Inl (CelebrateError seg), [], w)"
  by (simp add: celebrate_def)

lemma example_uuid_example_id: "example_uuid example_id"
  by (simp add: example_uuid_def example_id_def upt_rec)

lemma joi_string_uuid_example_id: "joi_string_uuid example_externals example_id"
  using example_uuid_example_id
  by (simp add: joi_string_uuid_def joi_string_def example_externals_def example_id_def)

subsection \<open>GET /:invoiceId\<close>

text \<open>
  C6. A request for an invoice by a UUID-shaped identifier for which the invoices service
  resolves to no invoice ends in \<^verbatim>\<open>NotFoundError\<close>, of kind \<open>NotFound\<close>, and
  in nothing else: the route made the one call \<^verbatim>\<open>getInvoiceById\<close>, which did not
  raise, and the world is as the service left it.
\<close>

theorem get_invoiceId_absent_is_NotFound:
  assumes "joi_string_uuid ext invoiceId"
    and "getInvoiceById (invoices_service options) invoiceId w = (Inr None, w')"
  shows "get_invoiceId_route ext options invoiceId w =
           (Inl (NotFoundError (''Invoice '' @ invoiceId @ '' not found'')),
            [(GetInvoiceById invoiceId, None)], w')
         \<and> kind_of_error (NotFoundError (''Invoice '' @ invoiceId @ '' not found'')) = NotFound"
  using assms
  by (simp add: get_invoiceId_route_def invoiceId_params_schema_def celebrate_valid
      get_invoiceId_def)

theorem get_invoiceId_absent_is_NotFound_witness:
  "joi_string_uuid example_externals example_id
   \<and> getInvoiceById (invoices_service example_options) example_id 0 = (Inr None, 0)
   \<and> get_invoiceId_route example_externals example_options example_id 0 =
       (Inl (NotFoundError (''Invoice '' @ example_id @ '' not found'')),
        [(GetInvoiceById example_id, None)], 0)
   \<and> kind_of_error (NotFoundError (''Invoice '' @ example_id @ '' not found'')) = NotFound"
proof -
  have h: "getInvoiceById (invoices_service example_options) example_id 0 = (Inr None, 0)"
    by (simp add: example_options_def example_service_def)
  show ?thesis
    using get_invoiceId_absent_is_NotFound [OF joi_string_uuid_example_id h]
      joi_string_uuid_example_id h
    by simp
qed

subsection \<open>POST /\<close>

text \<open>
  C7. A request whose payload holds exactly one file \<open>f\<close> (under any field name \<open>k\<close>)
  makes one call on the invoices service, \<^verbatim>\<open>createInvoice\<close> with the bytes of \<open>f\<close>
  as the content of the document and the MIME type of \<open>f\<close>; the invoice the service
  resolves to is answered as JSON with status 201, and an error of the service is passed
  on as it is.
\<close>

theorem post_root_single_file_delegates:
  assumes "files = Some [(k, Single f)]"
    and "createInvoice (invoices_service options)
           \<lparr>content = Some (data f), mimeType = Some (mimetype f)\<rparr> w = (r, w')"
  shows "post_root options files w =
           ((case r of
               Inl err \<Rightarrow> Inl err
             | Inr invoice \<Rightarrow>
                 Inr \<lparr>statusCode = 201, headers = [], body = Json_invoice invoice\<rparr>),
            [(CreateInvoice \<lparr>content = Some (data f), mimeType = Some (mimetype f)\<rparr>,
              raised r)], w')"
  using assms
  by (simp add: post_root_def res_json_def CREATED_def split: sum.splits)

theorem post_root_single_file_delegates_witness:
  "createInvoice (invoices_service example_options)
     \<lparr>content = Some (data \<lparr>data = [0x25, 0x50], mimetype = ''application/pdf''\<rparr>),
      mimeType = Some (mimetype \<lparr>data = [0x25, 0x50], mimetype = ''application/pdf''\<rparr>)\<rparr> 0
     = (Inr ''invoice-1'', 1)
   \<and> post_root example_options
       (Some [(''invoice'', Single \<lparr>data = [0x25, 0x50], mimetype = ''application/pdf''\<rparr>)]) 0 =
       (Inr \<lparr>statusCode = 201, headers = [], body = Json_invoice ''invoice-1''\<rparr>,
        [(CreateInvoice \<lparr>content = Some [0x25, 0x50], mimeType = Some ''application/pdf''\<rparr>,
          None)], 1)"
proof -
  have h: "createInvoice (invoices_service example_options)
     \<lparr>content = Some (data \<lparr>data = [0x25, 0x50], mimetype = ''application/pdf''\<rparr>),
      mimeType = Some (mimetype \<lparr>data = [0x25, 0x50], mimetype = ''application/pdf''\<rparr>)\<rparr> 0
     = (Inr ''invoice-1'', 1)"
    by (simp add: example_options_def example_service_def)
  show ?thesis
    using post_root_single_file_delegates [OF refl h, of "''invoice''"] h
    by simp
qed

subsection \<open>PATCH /:invoiceId\<close>

lemma patch_body_schema_iff:
  "patch_body_schema ext b \<longleftrightarrow>
     (case b_status b of None \<Rightarrow> True | Some s \<Rightarrow> s \<in> set (invoiceStatusValues ext))"
  by (simp add: patch_body_schema_def joi_optional_def joi_string_valid_def
      split: option.splits)

text \<open>
  C8. A request to update an invoice whose body passes the schema (no status, or one of
  the values of the enumeration) makes exactly one call on the invoices service,
  \<^verbatim>\<open>updateInvoice\<close> with the identifier and the status as given, absent when it is
  absent: no lookup of the invoice comes first. What the service resolves to is answered as
  JSON, and an error of the service is passed on. The empty body passes the schema.
\<close>

theorem patch_invoiceId_delegates:
  assumes "case b_status b of None \<Rightarrow> True | Some s \<Rightarrow> s \<in> set (invoiceStatusValues ext)"
    and "updateInvoice (invoices_service options) invoiceId (b_status b) w = (r, w')"
  shows "patch_invoiceId_route ext options invoiceId b w =
           ((case r of
               Inl err \<Rightarrow> Inl err
             | Inr invoice \<Rightarrow>
                 Inr \<lparr>statusCode = 200, headers = [], body = Json_invoice invoice\<rparr>),
            [(UpdateInvoice invoiceId (b_status b), raised r)], w')
         \<and> patch_body_schema ext \<lparr>b_status = None\<rparr>"
  using assms
  by (simp add: patch_invoiceId_route_def patch_body_schema_iff celebrate_valid
      patch_invoiceId_def res_json_def split: sum.splits)

theorem patch_invoiceId_delegates_witness:
  "(case b_status \<lparr>b_status = None\<rparr> of
      None \<Rightarrow> True
    | Some s \<Rightarrow> s \<in> set (invoiceStatusValues example_externals))
   \<and> updateInvoice (invoices_service example_options) example_id
        (b_status \<lparr>b_status = None\<rparr>) 1 = (Inr ''invoice-1'', 1)
   \<and> patch_invoiceId_route example_externals example_options example_id \<lparr>b_status = None\<rparr> 1 =
       (Inr \<lparr>statusCode = 200, headers = [], body = Json_invoice ''invoice-1''\<rparr>,
        [(UpdateInvoice example_id None, None)], 1)"
proof -
  have v: "case b_status \<lparr>b_status = None\<rparr> of
      None \<Rightarrow> True
    | Some s \<Rightarrow> s \<in> set (invoiceStatusValues example_externals)"
    by simp
  have h: "updateInvoice (invoices_service example_options) example_id
        (b_status \<lparr>b_status = None\<rparr>) 1 = (Inr ''invoice-1'', 1)"
    by (simp add: example_options_def example_service_def)
  show ?thesis
    using patch_invoiceId_delegates [OF v h] h
    by simp
qed

text \<open>
  C10. The route that updates an invoice puts no rule on the identifier: with a body that
  passes the schema, any string \<open>invoiceId\<close> reaches \<^verbatim>\<open>updateInvoice\<close> as it is.
  The two GET routes on an identifier refuse one that is not UUID-shaped before any call.
\<close>

theorem patch_invoiceId_any_identifier:
  assumes "case b_status b of None \<Rightarrow> True | Some s \<Rightarrow> s \<in> set (invoiceStatusValues ext)"
  shows "fst (snd (patch_invoiceId_route ext options invoiceId b w)) =
           [(UpdateInvoice invoiceId (b_status b),
             raised (fst (updateInvoice (invoices_service options) invoiceId (b_status b) w)))]
         \<and> (\<not> uuid ext invoiceId \<longrightarrow>
              get_invoiceId_route ext options invoiceId w = (Inl (CelebrateError PARAMS), [], w)
              \<and> get_invoiceId_download_route ext options invoiceId w =
                  (Inl (CelebrateError PARAMS), [], w))"
  using assms
  by (simp add: patch_invoiceId_route_def patch_body_schema_iff celebrate_valid
      patch_invoiceId_def get_invoiceId_route_def get_invoiceId_download_route_def
      invoiceId_params_schema_def joi_string_uuid_def celebrate_invalid Let_def
      split: prod.splits)

lemma not_uuid_sample: "\<not> uuid example_externals ''not-a-uuid''"
  by (simp add: example_externals_def example_uuid_def)

theorem patch_invoiceId_any_identifier_witness:
  "(case b_status \<lparr>b_status = Some ''paid''\<rparr> of
      None \<Rightarrow> True
    | Some s \<Rightarrow> s \<in> set (invoiceStatusValues example_externals))
   \<and> \<not> uuid example_externals ''not-a-uuid''
   \<and> fst (snd (patch_invoiceId_route example_externals example_options ''not-a-uuid''
                 \<lparr>b_status = Some ''paid''\<rparr> 1)) =
       [(UpdateInvoice ''not-a-uuid'' (Some ''paid''), None)]
   \<and> get_invoiceId_route example_externals example_options ''not-a-uuid'' 1 =
       (Inl (CelebrateError PARAMS), [], 1)
   \<and> get_invoiceId_download_route example_externals example_options ''not-a-uuid'' 1 =
       (Inl (CelebrateError PARAMS), [], 1)"
proof -
  have v: "case b_status \<lparr>b_status = Some ''paid''\<rparr> of
      None \<Rightarrow> True
    | Some s \<Rightarrow> s \<in> set (invoiceStatusValues example_externals)"
    by (simp add: example_externals_def)
  have u: "updateInvoice (invoices_service example_options) ''not-a-uuid'' (Some ''paid'') 1
             = (Inr ''invoice-1'', 1)"
    by (simp add: example_options_def example_service_def)
  show ?thesis
    using patch_invoiceId_any_identifier [OF v, of example_options "''not-a-uuid''" 1]
      v not_uuid_sample u
    by simp
qed

subsection \<open>GET /:invoiceId/download\<close>

text \<open>
  C4. A download request with a UUID-shaped identifier: when the invoices service
  resolves to no document file the route ends in \<^verbatim>\<open>NotFoundError\<close> (kind
  \<open>NotFound\<close>), whatever \<^verbatim>\<open>mimeTypes.extension\<close> would answer (\<open>x\<close> is any
  extension table), so the check for the document comes before the one on the MIME type;
  when a document file is returned and its MIME type has no extension the route ends in a
  plain \<^verbatim>\<open>Error\<close> (kind \<open>InvalidState\<close>).
\<close>

theorem download_absent_then_unmapped:
  assumes "joi_string_uuid ext invoiceId"
    and "downloadInvoiceDocumentFile (invoices_service options) invoiceId w = (Inr d, w')"
  shows "(d = None \<longrightarrow>
            get_invoiceId_download_route (ext\<lparr>extension := x\<rparr>) options invoiceId w =
              (Inl (NotFoundError (''Invoice '' @ invoiceId @ '' not found'')),
               [(DownloadInvoiceDocumentFile invoiceId, None)], w')
            \<and> kind_of_error (NotFoundError (''Invoice '' @ invoiceId @ '' not found''))
                = NotFound)
         \<and> (\<forall>f. d = Some f \<and> extension ext (file_mimeType f) = None \<longrightarrow>
            get_invoiceId_download_route ext options invoiceId w =
              (Inl (Error (''Invalid mimeType '' @ file_mimeType f @ '' for invoice ''
                           @ invoiceId)),
               [(DownloadInvoiceDocumentFile invoiceId, None)], w')
            \<and> kind_of_error (Error (''Invalid mimeType '' @ file_mimeType f
                                     @ '' for invoice '' @ invoiceId)) = InvalidState)"
  using assms
  by (simp add: get_invoiceId_download_route_def invoiceId_params_schema_def
      joi_string_uuid_def celebrate_valid get_invoiceId_download_def falsy_extension_def)

theorem download_absent_then_unmapped_witness:
  "joi_string_uuid example_externals example_id
   \<and> downloadInvoiceDocumentFile (invoices_service example_options) example_id 0
       = (Inr None, 0)
   \<and> get_invoiceId_download_route (example_externals\<lparr>extension := (\<lambda>t. Some ''bin'')\<rparr>)
        example_options example_id 0 =
       (Inl (NotFoundError (''Invoice '' @ example_id @ '' not found'')),
        [(DownloadInvoiceDocumentFile example_id, None)], 0)
   \<and> downloadInvoiceDocumentFile (invoices_service unmapped_options) example_id 1
       = (Inr (Some \<lparr>file_content = [0x00, 0x01],
                     file_mimeType = ''application/x-unknown''\<rparr>), 1)
   \<and> extension example_externals ''application/x-unknown'' = None
   \<and> get_invoiceId_download_route example_externals unmapped_options example_id 1 =
       (Inl (Error (''Invalid mimeType application/x-unknown for invoice '' @ example_id)),
        [(DownloadInvoiceDocumentFile example_id, None)], 1)
   \<and> kind_of_error (Error (''Invalid mimeType application/x-unknown for invoice ''
                            @ example_id)) = InvalidState"
proof -
  have a: "downloadInvoiceDocumentFile (invoices_service example_options) example_id 0
       = (Inr None, 0)"
    by (simp add: example_options_def example_service_def)
  have b: "downloadInvoiceDocumentFile (invoices_service unmapped_options) example_id 1
       = (Inr (Some \<lparr>file_content = [0x00, 0x01],
                     file_mimeType = ''application/x-unknown''\<rparr>), 1)"
    by (simp add: unmapped_options_def example_service_def)
  have c: "extension example_externals ''application/x-unknown'' = None"
    by (simp add: example_externals_def)
  show ?thesis
    using download_absent_then_unmapped [OF joi_string_uuid_example_id a,
        of "\<lambda>t. Some ''bin''"]
      download_absent_then_unmapped [OF joi_string_uuid_example_id b]
      joi_string_uuid_example_id a b c
    by simp
qed

text \<open>
  C5. The claim is that the response to a download carries, as its
  \<^verbatim>\<open>Content-Type\<close>, the MIME type of the document. The handler gives the MIME type
  to \<^verbatim>\<open>res.set\<close>, and express appends a charset to a type it has one for: a
  document of type \<^verbatim>\<open>text/plain\<close> is answered with
  \<^verbatim>\<open>text/plain; charset=utf-8\<close>, which is not its MIME type.
\<close>

theorem download_text_plain_charset:
  "joi_string_uuid example_externals example_id
   \<and> downloadInvoiceDocumentFile (invoices_service text_options) example_id 1
       = (Inr (Some \<lparr>file_content = [0x68, 0x69], file_mimeType = ''text/plain''\<rparr>), 1)
   \<and> extension example_externals ''text/plain'' = Some ''txt''
   \<and> get_invoiceId_download_route example_externals text_options example_id 1 =
       (Inr \<lparr>statusCode = 200,
             headers =
               [(''Content-Type'', HString ''text/plain; charset=utf-8''),
                (''Content-Length'', HNumber 2),
                (''Content-Disposition'',
                   HString (''attachment; filename='' @ [CHR 0x22] @ example_id @ ''.txt''
                            @ [CHR 0x22]))],
             body = Send [0x68, 0x69]\<rparr>,
        [(DownloadInvoiceDocumentFile example_id, None)], 1)
   \<and> HString ''text/plain; charset=utf-8'' \<noteq> HString ''text/plain''"
  using joi_string_uuid_example_id
  by (simp add: get_invoiceId_download_route_def invoiceId_params_schema_def
      celebrate_valid get_invoiceId_download_def falsy_extension_def content_disposition_def
      res_set_def res_set_value_def text_options_def example_service_def
      example_externals_def)

text \<open>
  C5, as amended. A download request with a UUID-shaped identifier whose document file
  exists and whose MIME type has the extension \<open>e\<close> (a string with at least one
  character) is answered with the bytes of the document as the body,
  \<^verbatim>\<open>Content-Length\<close> the number of its bytes,
  \<^verbatim>\<open>Content-Disposition\<close> \<^verbatim>\<open>attachment; filename="<id>.<e>"\<close>, and as
  \<^verbatim>\<open>Content-Type\<close> the MIME type of the document, followed by
  \<^verbatim>\<open>; charset=\<close> and the charset when express has one for it and by nothing
  otherwise. With the entry of the extension table that the spec names, \<open>e\<close> is
  \<^verbatim>\<open>pdf\<close> for a document of type \<^verbatim>\<open>application/pdf\<close>.
\<close>

theorem download_response:
  assumes "joi_string_uuid ext invoiceId"
    and "downloadInvoiceDocumentFile (invoices_service options) invoiceId w
           = (Inr (Some f), w')"
    and "extension ext (file_mimeType f) = Some e"
    and "e \<noteq> []"
  shows "get_invoiceId_download_route ext options invoiceId w =
           (Inr \<lparr>statusCode = 200,
                 headers =
                   [(''Content-Type'',
                       HString (case charset ext (file_mimeType f) of
                                  None \<Rightarrow> file_mimeType f
                                | Some cs \<Rightarrow> file_mimeType f @ ''; charset='' @ cs)),
                    (''Content-Length'', HNumber (length (file_content f))),
                    (''Content-Disposition'',
                       HString (''attachment; filename='' @ [CHR 0x22] @ invoiceId @ ''.''
                                @ e @ [CHR 0x22]))],
                 body = Send (file_content f)\<rparr>,
            [(DownloadInvoiceDocumentFile invoiceId, None)], w')
         \<and> (pdf_extension ext \<and> file_mimeType f = ''application/pdf'' \<longrightarrow> e = ''pdf'')"
  using assms
  by (auto simp: get_invoiceId_download_route_def invoiceId_params_schema_def
      celebrate_valid get_invoiceId_download_def falsy_extension_def content_disposition_def
      res_set_def res_set_value_def pdf_extension_def split: option.splits)

theorem download_response_witness:
  "joi_string_uuid example_externals example_id
   \<and> downloadInvoiceDocumentFile (invoices_service example_options) example_id 1
       = (Inr (Some \<lparr>file_content = [0x25, 0x50, 0x44, 0x46],
                     file_mimeType = ''application/pdf''\<rparr>), 1)
   \<and> pdf_extension example_externals
   \<and> charset example_externals ''application/pdf'' = None
   \<and> get_invoiceId_download_route example_externals example_options example_id 1 =
       (Inr \<lparr>statusCode = 200,
             headers =
               [(''Content-Type'', HString ''application/pdf''),
                (''Content-Length'', HNumber 4),
                (''Content-Disposition'',
                   HString (''attachment; filename='' @ [CHR 0x22] @ example_id @ ''.pdf''
                            @ [CHR 0x22]))],
             body = Send [0x25, 0x50, 0x44, 0x46]\<rparr>,
        [(DownloadInvoiceDocumentFile example_id, None)], 1)"
proof -
  have a: "downloadInvoiceDocumentFile (invoices_service example_options) example_id 1
       = (Inr (Some \<lparr>file_content = [0x25, 0x50, 0x44, 0x46],
                     file_mimeType = ''application/pdf''\<rparr>), 1)"
    by (simp add: example_options_def example_service_def)
  have b: "extension example_externals
             (file_mimeType \<lparr>file_content = [0x25, 0x50, 0x44, 0x46],
                             file_mimeType = ''application/pdf''\<rparr>) = Some ''pdf''"
    by (simp add: example_externals_def)
  have c: "''pdf'' \<noteq> []"
    by simp
  have d: "pdf_extension example_externals"
    by (simp add: pdf_extension_def example_externals_def)
  have n: "charset example_externals ''application/pdf'' = None"
    by (simp add: example_externals_def)
  show ?thesis
    using download_response [OF joi_string_uuid_example_id a b c]
      joi_string_uuid_example_id a d n
    by simp
qed

subsection \<open>Errors of the invoices service\<close>

text \<open>
  A call that a route made is the only call it made; what the call did is what the
  service does for it in the state the request found; and an error it raised is what the
  route hands to \<^verbatim>\<open>next\<close>.
\<close>

lemma router_trace_call:
  assumes "router ext options req w = (res, tr, w'')"
    and "(c, x) \<in> set tr"
  shows "tr = [(c, x)]
         \<and> perform (invoices_service options) c w = (x, w'')
         \<and> (\<forall>e. x = Some e \<longrightarrow> res = Inl e)"
proof (cases req)
  case (POST_root files)
  with assms show ?thesis
    by (auto simp: post_root_def Let_def split: option.splits if_splits prod.splits sum.splits)
next
  case (GET_root q)
  with assms show ?thesis
    by (auto simp: get_root_route_def celebrate_def get_root_def Let_def
        split: option.splits if_splits prod.splits sum.splits)
next
  case GET_currencies
  with assms show ?thesis
    by (auto simp: get_currencies_def Let_def split: prod.splits sum.splits)
next
  case (GET_invoiceId i)
  with assms show ?thesis
    by (auto simp: get_invoiceId_route_def celebrate_def get_invoiceId_def Let_def
        split: option.splits if_splits prod.splits sum.splits)
next
  case (GET_invoiceId_download i)
  with assms show ?thesis
    by (auto simp: get_invoiceId_download_route_def celebrate_def get_invoiceId_download_def
        Let_def split: option.splits if_splits prod.splits sum.splits)
next
  case (PATCH_invoiceId i b)
  with assms show ?thesis
    by (auto simp: patch_invoiceId_route_def celebrate_def patch_invoiceId_def Let_def
        split: option.splits if_splits prod.splits sum.splits)
qed

text \<open>The six routes, each with a request that passes its checks and a call that raises.\<close>

lemma post_root_service_error:
  assumes "files = Some [(k, v)]"
    and "createInvoice (invoices_service options)
           \<lparr>content = entry_data v, mimeType = entry_mimetype v\<rparr> w = (Inl e, w')"
  shows "router ext options (POST_root files) w =
           (Inl e,
            [(CreateInvoice \<lparr>content = entry_data v, mimeType = entry_mimetype v\<rparr>, Some e)],
            w')"
  using assms by (simp add: post_root_def)

lemma get_root_service_error:
  assumes "list_query_schema ext q"
    and "(case q_orderBy q of None \<Rightarrow> Inr [] | Some cs \<Rightarrow> array_map orderBy_callback cs)
           = Inr ob"
    and "listInvoices (invoices_service options)
           \<lparr>ids = q_ids q, statuses = q_statuses q, vendorIds = q_vendorIds q, orderBy = ob\<rparr> w
           = (Inl e, w')"
  shows "router ext options (GET_root q) w =
           (Inl e,
            [(ListInvoices \<lparr>ids = q_ids q, statuses = q_statuses q,
                             vendorIds = q_vendorIds q, orderBy = ob\<rparr>, Some e)],
            w')"
  using assms by (simp add: get_root_route_def celebrate_valid get_root_def)

lemma get_currencies_service_error:
  assumes "listCurrencies (invoices_service options) w = (Inl e, w')"
  shows "router ext options GET_currencies w = (Inl e, [(ListCurrencies, Some e)], w')"
  using assms by (simp add: get_currencies_def)

lemma get_invoiceId_service_error:
  assumes "joi_string_uuid ext i"
    and "getInvoiceById (invoices_service options) i w = (Inl e, w')"
  shows "router ext options (GET_invoiceId i) w = (Inl e, [(GetInvoiceById i, Some e)], w')"
  using assms
  by (simp add: get_invoiceId_route_def invoiceId_params_schema_def celebrate_valid
      get_invoiceId_def)

lemma get_invoiceId_download_service_error:
  assumes "joi_string_uuid ext i"
    and "downloadInvoiceDocumentFile (invoices_service options) i w = (Inl e, w')"
  shows "router ext options (GET_invoiceId_download i) w =
           (Inl e, [(DownloadInvoiceDocumentFile i, Some e)], w')"
  using assms
  by (simp add: get_invoiceId_download_route_def invoiceId_params_schema_def celebrate_valid
      get_invoiceId_download_def)

lemma patch_invoiceId_service_error:
  assumes "patch_body_schema ext b"
    and "updateInvoice (invoices_service options) i (b_status b) w = (Inl e, w')"
  shows "router ext options (PATCH_invoiceId i b) w =
           (Inl e, [(UpdateInvoice i (b_status b), Some e)], w')"
  using assms
  by (simp add: patch_invoiceId_route_def celebrate_valid patch_invoiceId_def)

text \<open>
  C9. On every route, when the request passes the checks of the route and the call that
  the route makes on the invoices service raises the error \<open>e\<close>, leaving the state
  \<open>w'\<close>, the route hands \<open>e\<close> itself to \<^verbatim>\<open>next\<close>, that call is the only
  call it made, and the state is \<open>w'\<close>: the error is neither changed nor dropped, the
  call is not made again, and no call follows it. The six routes come first, each with
  the call it makes; the last part says the same of any call \<open>c\<close> that a request made.
  No route calls the vendors client.
\<close>

theorem collaborator_error_propagates:
  "(files = Some [(k, v)]
      \<and> createInvoice (invoices_service options)
          \<lparr>content = entry_data v, mimeType = entry_mimetype v\<rparr> w = (Inl e, w')
    \<longrightarrow> router ext options (POST_root files) w =
          (Inl e,
           [(CreateInvoice \<lparr>content = entry_data v, mimeType = entry_mimetype v\<rparr>, Some e)],
           w'))
   \<and> (list_query_schema ext q
      \<and> (case q_orderBy q of None \<Rightarrow> Inr [] | Some cs \<Rightarrow> array_map orderBy_callback cs)
          = Inr ob
      \<and> listInvoices (invoices_service options)
          \<lparr>ids = q_ids q, statuses = q_statuses q, vendorIds = q_vendorIds q, orderBy = ob\<rparr> w
          = (Inl e, w')
    \<longrightarrow> router ext options (GET_root q) w =
          (Inl e,
           [(ListInvoices \<lparr>ids = q_ids q, statuses = q_statuses q,
                            vendorIds = q_vendorIds q, orderBy = ob\<rparr>, Some e)],
           w'))
   \<and> (listCurrencies (invoices_service options) w = (Inl e, w')
    \<longrightarrow> router ext options GET_currencies w = (Inl e, [(ListCurrencies, Some e)], w'))
   \<and> (joi_string_uuid ext i \<and> getInvoiceById (invoices_service options) i w = (Inl e, w')
    \<longrightarrow> router ext options (GET_invoiceId i) w = (Inl e, [(GetInvoiceById i, Some e)], w'))
   \<and> (joi_string_uuid ext i
      \<and> downloadInvoiceDocumentFile (invoices_service options) i w = (Inl e, w')
    \<longrightarrow> router ext options (GET_invoiceId_download i) w =
          (Inl e, [(DownloadInvoiceDocumentFile i, Some e)], w'))
   \<and> (patch_body_schema ext b
      \<and> updateInvoice (invoices_service options) i (b_status b) w = (Inl e, w')
    \<longrightarrow> router ext options (PATCH_invoiceId i b) w =
          (Inl e, [(UpdateInvoice i (b_status b), Some e)], w'))
   \<and> (router ext options req w = (res, tr, w'') \<and> (c, x) \<in> set tr
      \<and> perform (invoices_service options) c w = (Some e, w')
    \<longrightarrow> res = Inl e \<and> tr = [(c, Some e)] \<and> w'' = w')"
proof -
  have last: "res = Inl e \<and> tr = [(c, Some e)] \<and> w'' = w'"
    if "router ext options req w = (res, tr, w'')" and "(c, x) \<in> set tr"
      and "perform (invoices_service options) c w = (Some e, w')"
    using router_trace_call [OF that(1,2)] that(3) by simp
  show ?thesis
    using post_root_service_error [of files k v options w e w' ext]
      get_root_service_error [of ext q ob options w e w']
      get_currencies_service_error [of options w e w' ext]
      get_invoiceId_service_error [of ext i options w e w']
      get_invoiceId_download_service_error [of ext i options w e w']
      patch_invoiceId_service_error [of ext b options i w e w']
      last
    by blast
qed


lemma array_map_dueDate_asc:
  "(case q_orderBy \<lparr>q_ids = None, q_statuses = None, q_vendorIds = None,
                     q_orderBy = Some [''dueDate asc'']\<rparr> of
      None \<Rightarrow> Inr []
    | Some cs \<Rightarrow> array_map orderBy_callback cs)
   = Inr [\<lparr>field = ''dueDate'', direction = ''asc''\<rparr>]"
  by (simp add: orderBy_callback_def at_index_def)

theorem collaborator_error_propagates_witness:
  "router example_externals failing_options
     (POST_root (Some [(''invoice'',
        Single \<lparr>data = [0x25, 0x50], mimetype = ''application/pdf''\<rparr>)])) 3 =
     (Inl deadline_exceeded,
      [(CreateInvoice \<lparr>content = Some [0x25, 0x50], mimeType = Some ''application/pdf''\<rparr>,
        Some deadline_exceeded)], 3)
   \<and> router example_externals failing_options
       (GET_root \<lparr>q_ids = None, q_statuses = None, q_vendorIds = None,
                  q_orderBy = Some [''dueDate asc'']\<rparr>) 3 =
       (Inl deadline_exceeded,
        [(ListInvoices \<lparr>ids = None, statuses = None, vendorIds = None,
                         orderBy = [\<lparr>field = ''dueDate'', direction = ''asc''\<rparr>]\<rparr>,
          Some deadline_exceeded)], 3)
   \<and> router example_externals failing_options GET_currencies 3 =
       (Inl deadline_exceeded, [(ListCurrencies, Some deadline_exceeded)], 3)
   \<and> router example_externals failing_options (GET_invoiceId example_id) 3 =
       (Inl deadline_exceeded, [(GetInvoiceById example_id, Some deadline_exceeded)], 3)
   \<and> router example_externals failing_options (GET_invoiceId_download example_id) 3 =
       (Inl deadline_exceeded,
        [(DownloadInvoiceDocumentFile example_id, Some deadline_exceeded)], 3)
   \<and> router example_externals failing_options
       (PATCH_invoiceId example_id \<lparr>b_status = Some ''paid''\<rparr>) 3 =
       (Inl deadline_exceeded,
        [(UpdateInvoice example_id (Some ''paid''), Some deadline_exceeded)], 3)"
proof -
  have s: "list_query_schema example_externals
     \<lparr>q_ids = None, q_statuses = None, q_vendorIds = None, q_orderBy = Some [''dueDate asc'']\<rparr>"
    by (simp add: list_query_schema_def joi_optional_def joi_string_def)
  have b: "patch_body_schema example_externals \<lparr>b_status = Some ''paid''\<rparr>"
    by (simp add: patch_body_schema_def joi_optional_def joi_string_valid_def
        example_externals_def)
  have f: "invoices_service failing_options = failing_service deadline_exceeded"
    by (simp add: failing_options_def)
  show ?thesis
    using collaborator_error_propagates
      [where files = "Some [(''invoice'',
                 Single \<lparr>data = [0x25, 0x50], mimetype = ''application/pdf''\<rparr>)]"
         and k = "''invoice''"
         and v = "Single \<lparr>data = [0x25, 0x50], mimetype = ''application/pdf''\<rparr>"
         and options = failing_options and w = 3 and w' = 3
         and e = deadline_exceeded and ext = example_externals
         and q = "\<lparr>q_ids = None, q_statuses = None, q_vendorIds = None,
                   q_orderBy = Some [''dueDate asc'']\<rparr>"
         and ob = "[\<lparr>field = ''dueDate'', direction = ''asc''\<rparr>]"
         and i = example_id and b = "\<lparr>b_status = Some ''paid''\<rparr>"
         and req = GET_currencies and res = "Inl deadline_exceeded"
         and tr = "[(ListCurrencies, Some deadline_exceeded)]" and w'' = 3
         and c = ListCurrencies and x = "Some deadline_exceeded"]
      s b joi_string_uuid_example_id array_map_dueDate_asc
    by (simp add: f failing_service_def)
qed

subsection \<open>POST / and the number of files\<close>

text \<open>
  The handler counts the keys of \<^verbatim>\<open>req.files\<close>, the form field names: with no
  \<^verbatim>\<open>req.files\<close>, or a number of field names other than one, it ends in
  \<^verbatim>\<open>RangeError\<close> before any call on the invoices service.
\<close>

lemma post_root_refuses_by_keys:
  assumes "files = None \<or> (\<exists>fs. files = Some fs \<and> length fs \<noteq> 1)"
  shows "\<exists>m. post_root options files w = (Inl (RangeError m), [], w)
             \<and> kind_of_error (RangeError m) = InvalidRequest"
  using assms
  by (auto simp: post_root_def Let_def)

text \<open>
  C1. The claim is that a payload of no file or of more than one file always ends in a
  validation error without a call of \<^verbatim>\<open>createInvoice\<close>. The code counts field
  names, not files: two files \<open>f1\<close> and \<open>f2\<close> uploaded under one field name \<open>k\<close>
  are one key holding an array, the handler casts the array to \<^verbatim>\<open>UploadedFile\<close>,
  reads \<^verbatim>\<open>undefined\<close> for its \<^verbatim>\<open>data\<close> and \<^verbatim>\<open>mimetype\<close>, and calls
  \<^verbatim>\<open>createInvoice\<close> with a document that has neither content nor MIME type; what
  the service resolves to is answered with status 201.
\<close>

theorem post_root_two_files_one_field:
  "length (payload_files (Some [(k, Multiple [f1, f2])])) = 2
   \<and> post_root options (Some [(k, Multiple [f1, f2])]) w =
       (case createInvoice (invoices_service options) \<lparr>content = None, mimeType = None\<rparr> w of
          (r, w') \<Rightarrow>
            ((case r of
                Inl err \<Rightarrow> Inl err
              | Inr invoice \<Rightarrow>
                  Inr \<lparr>statusCode = 201, headers = [], body = Json_invoice invoice\<rparr>),
             [(CreateInvoice \<lparr>content = None, mimeType = None\<rparr>, raised r)], w'))"
  by (simp add: payload_files_def post_root_def res_json_def CREATED_def
      split: prod.splits sum.splits)

theorem post_root_two_files_one_field_witness:
  "length (payload_files
     (Some [(''invoice'', Multiple [\<lparr>data = [0x25], mimetype = ''application/pdf''\<rparr>,
                                    \<lparr>data = [0x89], mimetype = ''image/png''\<rparr>])])) = 2
   \<and> post_root example_options
       (Some [(''invoice'', Multiple [\<lparr>data = [0x25], mimetype = ''application/pdf''\<rparr>,
                                      \<lparr>data = [0x89], mimetype = ''image/png''\<rparr>])]) 0 =
       (Inr \<lparr>statusCode = 201, headers = [], body = Json_invoice ''invoice-1''\<rparr>,
        [(CreateInvoice \<lparr>content = None, mimeType = None\<rparr>, None)], 1)"
  using post_root_two_files_one_field [of "''invoice''"
      "\<lparr>data = [0x25], mimetype = ''application/pdf''\<rparr>"
      "\<lparr>data = [0x89], mimetype = ''image/png''\<rparr>" example_options 0]
  by (simp add: example_options_def example_service_def)

subsection \<open>GET / and the clauses of orderBy\<close>

text \<open>
  A clause that the callback refuses, anywhere among the clauses, keeps the request from
  the invoices service: \<^verbatim>\<open>listInvoices\<close> is not called.
\<close>

lemma array_map_some_throws:
  "c \<in> set cs \<Longrightarrow> isl (f c) \<Longrightarrow> isl (array_map f cs)"
proof (induction cs)
  case Nil
  then show ?case by simp
next
  case (Cons x xs)
  show ?case
  proof (cases "f x")
    case (Inl e)
    then show ?thesis by simp
  next
    case (Inr y)
    with Cons have "isl (array_map f xs)"
      by auto
    with Inr show ?thesis
      by (cases "array_map f xs") simp_all
  qed
qed

lemma array_map_after_good_prefix:
  "\<forall>p \<in> set pre. \<exists>y. f p = Inr y \<Longrightarrow> f c = Inl e \<Longrightarrow> array_map f (pre @ c # cs) = Inl e"
  by (induction pre) (auto split: sum.splits)

lemma get_root_bad_clause_no_call:
  assumes "q_orderBy q = Some cs" and "c \<in> set cs" and "isl (orderBy_callback c)"
  shows "\<exists>e. get_root_route ext options q w = (Inl e, [], w)"
proof (cases "list_query_schema ext q")
  case False
  then show ?thesis
    by (simp add: get_root_route_def celebrate_invalid)
next
  case True
  have "isl (array_map orderBy_callback cs)"
    using assms(2,3) by (rule array_map_some_throws)
  then obtain e where "array_map orderBy_callback cs = Inl e"
    by (cases "array_map orderBy_callback cs") simp_all
  with True assms(1) show ?thesis
    by (simp add: get_root_route_def celebrate_valid get_root_def)
qed

text \<open>What the callback throws: a plain \<^verbatim>\<open>Error\<close> with no message for a clause
  whose first token is not \<^verbatim>\<open>dueDate\<close>, a \<^verbatim>\<open>RangeError\<close> for a direction that
  is neither \<^verbatim>\<open>asc\<close> nor \<^verbatim>\<open>desc\<close>, a missing one included.\<close>

lemma orderBy_callback_unknown_field:
  "at_index (split (CHR '' '') c) 0 \<noteq> Some ''dueDate'' \<Longrightarrow> orderBy_callback c = Inl (Error [])"
  by (simp add: orderBy_callback_def Let_def)

lemma orderBy_callback_bad_direction:
  assumes "at_index (split (CHR '' '') c) 0 = Some ''dueDate''"
    and "at_index (split (CHR '' '') c) 1 \<noteq> Some ''asc''"
    and "at_index (split (CHR '' '') c) 1 \<noteq> Some ''desc''"
  shows "orderBy_callback c = Inl (RangeError (''Invalid direction in orderBy clause '' @ c))"
  using assms by (simp add: orderBy_callback_def Let_def)

text \<open>
  When the clauses before it are accepted, a clause with the field \<^verbatim>\<open>dueDate\<close> and a
  direction that is neither \<^verbatim>\<open>asc\<close> nor \<^verbatim>\<open>desc\<close> ends the request in
  \<^verbatim>\<open>RangeError\<close>, of kind \<open>InvalidRequest\<close>, with no call on the service.
\<close>

lemma get_root_bad_direction_first:
  assumes "list_query_schema ext q"
    and "q_orderBy q = Some (pre @ c # cs)"
    and "\<forall>p \<in> set pre. \<exists>y. orderBy_callback p = Inr y"
    and "at_index (split (CHR '' '') c) 0 = Some ''dueDate''"
    and "at_index (split (CHR '' '') c) 1 \<noteq> Some ''asc''"
    and "at_index (split (CHR '' '') c) 1 \<noteq> Some ''desc''"
  shows "get_root_route ext options q w =
           (Inl (RangeError (''Invalid direction in orderBy clause '' @ c)), [], w)
         \<and> kind_of_error (RangeError (''Invalid direction in orderBy clause '' @ c))
             = InvalidRequest"
proof -
  have "array_map orderBy_callback (pre @ c # cs) =
          Inl (RangeError (''Invalid direction in orderBy clause '' @ c))"
    using assms(3) orderBy_callback_bad_direction [OF assms(4-6)]
    by (rule array_map_after_good_prefix)
  with assms(1,2) show ?thesis
    by (simp add: get_root_route_def celebrate_valid get_root_def)
qed

text \<open>
  C2. The claim is that a clause whose first token is not \<^verbatim>\<open>dueDate\<close> ends the
  request in an error of kind \<open>InvalidRequest\<close>. The code throws a plain
  \<^verbatim>\<open>Error\<close> with no message for it, where the check of the direction beside it
  throws \<^verbatim>\<open>RangeError\<close>: a request that passes the schema and whose first clause
  has another first token ends in that plain \<^verbatim>\<open>Error\<close>, the class the router
  uses for an internal inconsistency (kind \<open>InvalidState\<close>). The invoices service is not
  called.
\<close>

theorem get_root_unknown_field_plain_Error:
  assumes "list_query_schema ext q"
    and "q_orderBy q = Some (c # cs)"
    and "at_index (split (CHR '' '') c) 0 \<noteq> Some ''dueDate''"
  shows "get_root_route ext options q w = (Inl (Error []), [], w)
         \<and> kind_of_error (Error []) = InvalidState"
  using assms
  by (simp add: get_root_route_def celebrate_valid get_root_def orderBy_callback_unknown_field)

theorem get_root_unknown_field_plain_Error_witness:
  "list_query_schema example_externals
     \<lparr>q_ids = None, q_statuses = None, q_vendorIds = None, q_orderBy = Some [''price asc'']\<rparr>
   \<and> at_index (split (CHR '' '') ''price asc'') 0 = Some ''price''
   \<and> get_root_route example_externals example_options
       \<lparr>q_ids = None, q_statuses = None, q_vendorIds = None, q_orderBy = Some [''price asc'']\<rparr>
       2 = (Inl (Error []), [], 2)
   \<and> kind_of_error (Error []) = InvalidState"
proof -
  have s: "list_query_schema example_externals
     \<lparr>q_ids = None, q_statuses = None, q_vendorIds = None, q_orderBy = Some [''price asc'']\<rparr>"
    by (simp add: list_query_schema_def joi_optional_def joi_string_def)
  have o: "q_orderBy \<lparr>q_ids = None, q_statuses = None, q_vendorIds = None,
                       q_orderBy = Some [''price asc'']\<rparr> = Some (''price asc'' # [])"
    by simp
  have t: "at_index (split (CHR '' '') ''price asc'') 0 = Some ''price''"
    by (simp add: at_index_def)
  have n: "at_index (split (CHR '' '') ''price asc'') 0 \<noteq> Some ''dueDate''"
    unfolding t by simp
  show ?thesis
    using get_root_unknown_field_plain_Error [OF s o n, of example_options 2] s t
    by simp
qed

text \<open>
  C3. The claim is that a request with a clause of field \<^verbatim>\<open>dueDate\<close> and a
  direction that is neither \<^verbatim>\<open>asc\<close> nor \<^verbatim>\<open>desc\<close> ends in an error of kind
  \<open>InvalidRequest\<close>. The request with the clauses \<^verbatim>\<open>price asc\<close> and
  \<^verbatim>\<open>dueDate sideways\<close>, in that order, passes the schema and has such a clause,
  and ends in the plain \<^verbatim>\<open>Error\<close> that the first clause raises, of kind
  \<open>InvalidState\<close>: the map over the clauses stops at the first throw. The invoices
  service is not called.
\<close>

theorem get_root_bad_direction_behind_unknown_field:
  "list_query_schema ext
     \<lparr>q_ids = None, q_statuses = None, q_vendorIds = None,
      q_orderBy = Some [''price asc'', ''dueDate sideways'']\<rparr>
   \<and> at_index (split (CHR '' '') ''dueDate sideways'') 0 = Some ''dueDate''
   \<and> at_index (split (CHR '' '') ''dueDate sideways'') 1 = Some ''sideways''
   \<and> get_root_route ext options
       \<lparr>q_ids = None, q_statuses = None, q_vendorIds = None,
        q_orderBy = Some [''price asc'', ''dueDate sideways'']\<rparr> w
       = (Inl (Error []), [], w)
   \<and> kind_of_error (Error []) = InvalidState"
  by (simp add: list_query_schema_def joi_optional_def joi_string_def at_index_def
      get_root_route_def celebrate_def get_root_def orderBy_callback_def)

theorem get_root_bad_direction_behind_unknown_field_witness:
  "get_root_route example_externals example_options
       \<lparr>q_ids = None, q_statuses = None, q_vendorIds = None,
        q_orderBy = Some [''price asc'', ''dueDate sideways'']\<rparr> 2
       = (Inl (Error []), [], 2)
   \<and> kind_of_error (Error []) = InvalidState"
  using get_root_bad_direction_behind_unknown_field [of example_externals example_options 2]
  by simp

end
